theory Spec2Isabelle
  imports Complex_Main "HOL-Library.Product_Lexorder" "HOL-Library.Multiset"
begin

section \<open>Synthetic power spectra (fooof/synth/gen.py)\<close>

text \<open>
  A shallow embedding of \<^verbatim>\<open>fooof/synth/gen.py\<close>. Python floats are read as exact
  reals throughout: rounding, overflow, infinities and NaN are outside the model.
  Exceptions are values of the type \<open>error\<close>, and a function that may raise returns
  \<open>error + 'a\<close> with \<open>Inl\<close> for the exception.
\<close>

subsection \<open>Errors\<close>

datatype error =
    InvalidParameterError
  | InsufficientParametersError
  | TypeError
  | ValueError
  | ZeroDivisionError

subsection \<open>The numpy operations the module calls\<close>

text \<open>
  \<^verbatim>\<open>np.arange(start, stop, step)\<close> has \<open>ceil((stop - start) / step)\<close> elements (none when
  that is not positive), element \<open>i\<close> being \<open>start + i * step\<close>; a zero step is rejected.
  The program computes the count and the elements in doubles. The definition agrees with it
  where no operation rounds (as for the range 1 to 50 in steps of 0.5); elsewhere the count
  can differ by one and the elements in their last bits, and no theorem below depends on
  the values there.
\<close>

definition np_arange :: "real \<Rightarrow> real \<Rightarrow> real \<Rightarrow> error + real list" where
  "np_arange start stop step =
     (if step = 0 then Inl ZeroDivisionError
      else Inr (map (\<lambda>i. start + real i * step) [0..<nat \<lceil>(stop - start) / step\<rceil>]))"

definition np_zeros :: "nat \<Rightarrow> real list" where
  "np_zeros n = replicate n 0"

text \<open>Elementwise addition of two arrays of one shape.\<close>

definition np_add :: "real list \<Rightarrow> real list \<Rightarrow> real list" where
  "np_add a b = map2 (+) a b"

text \<open>\<^verbatim>\<open>np.power(10, v)\<close>, elementwise.\<close>

definition np_power10 :: "real list \<Rightarrow> real list" where
  "np_power10 v = map (\<lambda>e. 10 powr e) v"

text \<open>
  The process-wide random source is explicit state: the stream of standard normal deviates
  it will hand out next. \<^verbatim>\<open>np.random.normal(loc, scale, size)\<close> takes that many of them, scales
  and shifts each, and leaves the rest of the stream; a negative scale is rejected.
\<close>

type_synonym rng = "nat \<Rightarrow> real"

definition np_random_normal :: "real \<Rightarrow> real \<Rightarrow> nat \<Rightarrow> rng \<Rightarrow> error + (real list \<times> rng)" where
  "np_random_normal loc scale num g =
     (if scale < 0 then Inl ValueError
      else Inr (map (\<lambda>i. loc + scale * g i) [0..<num], (\<lambda>i. g (num + i))))"

subsection \<open>Iterables\<close>

text \<open>
  What a \<^verbatim>\<open>for\<close> loop or \<^verbatim>\<open>zip\<close> can pull from an iterable: the items of a finite one
  (a list, or a generator that stops), or those of a generator that never stops.
  \<open>iter_take n it\<close> are the items that at most \<open>n\<close> pulls obtain, and \<open>nth_item it j\<close>
  is the item of pull \<open>j\<close>, if the iterable gets that far.
\<close>

datatype 'a iter = Items "'a list" | Endless "nat \<Rightarrow> 'a"

fun iter_take :: "nat \<Rightarrow> 'a iter \<Rightarrow> 'a list" where
  "iter_take n (Items xs) = take n xs"
| "iter_take n (Endless f) = map f [0..<n]"

fun nth_item :: "'a iter \<Rightarrow> nat \<Rightarrow> 'a option" where
  "nth_item (Items xs) j = (if j < length xs then Some (xs ! j) else None)"
| "nth_item (Endless f) j = Some (f j)"

subsection \<open>Collaborators that are not part of gen.py\<close>

text \<open>
  The two aperiodic functions are given only as interfaces, so they are parameters of the
  model: \<open>fixed_fn F x offset exponent\<close> and \<open>knee_fn F x offset knee exponent\<close> are the
  values at one frequency \<open>x\<close>, and the functions apply them elementwise.
\<close>

record ap_funcs =
  fixed_fn :: "real \<Rightarrow> real \<Rightarrow> real \<Rightarrow> real"
  knee_fn :: "real \<Rightarrow> real \<Rightarrow> real \<Rightarrow> real \<Rightarrow> real"

text \<open>
  The call \<^verbatim>\<open>f(xs, *params)\<close> of a function of two (three) parameters: any other number of
  unpacked arguments is a TypeError.
\<close>

definition call_fixed :: "ap_funcs \<Rightarrow> real list \<Rightarrow> real list \<Rightarrow> error + real list" where
  "call_fixed F xs ps =
     (case ps of
        [offset, exponent] \<Rightarrow> Inr (map (\<lambda>x. fixed_fn F x offset exponent) xs)
      | _ \<Rightarrow> Inl TypeError)"

definition call_knee :: "ap_funcs \<Rightarrow> real list \<Rightarrow> real list \<Rightarrow> error + real list" where
  "call_knee F xs ps =
     (case ps of
        [offset, knee, exponent] \<Rightarrow> Inr (map (\<lambda>x. knee_fn F x offset knee exponent) xs)
      | _ \<Rightarrow> Inl TypeError)"

text \<open>
  Modelled from the spec: \<^verbatim>\<open>infer_ap_func\<close> (fooof.core.funcs) is missing from the sources.
  The mode is inferred from the number of parameters: 2 is "fixed", 3 is "knee", any other
  length is an InvalidParameterError.
\<close>

definition infer_ap_func :: "real list \<Rightarrow> error + string" where
  "infer_ap_func aperiodic_params =
     (if length aperiodic_params = 2 then Inr ''fixed''
      else if length aperiodic_params = 3 then Inr ''knee''
      else Inl InvalidParameterError)"

text \<open>
  Modelled from the spec: \<^verbatim>\<open>get_ap_func\<close> (fooof.core.funcs) is missing from the sources.
  It looks the function of a mode name up; an unknown mode is an InvalidParameterError.
\<close>

definition get_ap_func ::
  "ap_funcs \<Rightarrow> string \<Rightarrow> error + (real list \<Rightarrow> real list \<Rightarrow> error + real list)" where
  "get_ap_func F aperiodic_mode =
     (if aperiodic_mode = ''fixed'' then Inr (call_fixed F)
      else if aperiodic_mode = ''knee'' then Inr (call_knee F)
      else Inl InvalidParameterError)"

text \<open>
  Modelled from the spec: \<^verbatim>\<open>gaussian_function\<close> (fooof.core.funcs) is missing from the
  sources. It sums, for every consecutive triple (center, amplitude, bandwidth), the bump
  \<open>amplitude * exp (- (x - center)\<^sup>2 / (2 * bandwidth\<^sup>2))\<close> at each frequency, starting from
  zeros; a parameter count that is not a multiple of 3 is an InvalidParameterError.
  (A zero bandwidth divides by zero in the program; in HOL the quotient is 0 there.)
\<close>

definition gaussian_bump :: "real \<Rightarrow> real \<Rightarrow> real \<Rightarrow> real \<Rightarrow> real" where
  "gaussian_bump ctr hgt wid x = hgt * exp (- ((x - ctr)\<^sup>2) / (2 * wid\<^sup>2))"

text \<open>
  Modelled from the spec: the sum over the consecutive triples of \<^verbatim>\<open>gaussian_function\<close>,
  with the values summed so far in \<open>ys\<close>.
\<close>

fun gaussian_sum :: "real list \<Rightarrow> real list \<Rightarrow> real list \<Rightarrow> error + real list" where
  "gaussian_sum xs ys [] = Inr ys"
| "gaussian_sum xs ys (ctr # hgt # wid # rest) =
     gaussian_sum xs (np_add ys (map (gaussian_bump ctr hgt wid) xs)) rest"
| "gaussian_sum xs ys _ = Inl InvalidParameterError"

text \<open>
  Modelled from the spec: \<^verbatim>\<open>gaussian_function(xs, *params)\<close>, the sum started from zeros.
\<close>

definition gaussian_function :: "real list \<Rightarrow> real list \<Rightarrow> error + real list" where
  "gaussian_function xs params = gaussian_sum xs (np_zeros (length xs)) params"

text \<open>
  Modelled from the spec: \<^verbatim>\<open>group_three\<close> (fooof.core.utils) is missing from the sources.
  It groups a flat sequence into 3-tuples; a length that is not a multiple of 3 is an
  InvalidParameterError.
\<close>

fun group_three :: "real list \<Rightarrow> error + (real \<times> real \<times> real) list" where
  "group_three [] = Inr []"
| "group_three (a # b # c # rest) =
     (case group_three rest of Inl e \<Rightarrow> Inl e | Inr ts \<Rightarrow> Inr ((a, b, c) # ts))"
| "group_three _ = Inl InvalidParameterError"

text \<open>
  The peak parameters of a single spectrum come as a flat list or as a list of groups.
\<close>

datatype gauss_input = Flat "real list" | Grouped "real list list"

text \<open>
  Modelled from the spec: \<^verbatim>\<open>check_flat\<close> (fooof.core.utils) is missing from the sources.
  It flattens grouped parameters and leaves flat ones as they are.
\<close>

fun check_flat :: "gauss_input \<Rightarrow> real list" where
  "check_flat (Flat ps) = ps"
| "check_flat (Grouped gs) = concat gs"

text \<open>
  A parameter source of the batch generator is a single value used for every spectrum, a
  finite sequence used positionally, or a generator.
\<close>

datatype 'a param_input = Single 'a | Sequence "'a list" | Generator "'a iter"

text \<open>
  Modelled from the spec: \<^verbatim>\<open>check_iter\<close> (fooof.core.utils) is missing from the sources.
  A single value becomes an iterable that repeats it \<open>n\<close> times; a sequence and a generator
  are consumed as they are (a sequence of another length than \<open>n\<close> is the caller's error,
  and left to truncation).
\<close>

fun check_iter :: "'a param_input \<Rightarrow> int \<Rightarrow> 'a iter" where
  "check_iter (Single v) n = Items (replicate (nat n) v)"
| "check_iter (Sequence vs) n = Items vs"
| "check_iter (Generator g) n = g"

text \<open>
  Modelled from the spec: \<^verbatim>\<open>SynParams\<close> (fooof.synth.params) is missing from the sources.
  Its constructor takes the copy of the aperiodic parameters, the sorted grouped peak
  parameters and the noise level, and exposes them as fields.
\<close>

record SynParams =
  aperiodic_params_copy :: "real list"
  sorted_grouped_peak_params :: "(real \<times> real \<times> real) list"
  noise_level :: real

subsection \<open>gen.py\<close>

text \<open>\<^verbatim>\<open>np.arange(freq_range[0], freq_range[1]+freq_res, freq_res)\<close>\<close>

definition gen_freqs :: "real \<times> real \<Rightarrow> real \<Rightarrow> error + real list" where
  "gen_freqs freq_range freq_res =
     np_arange (fst freq_range) (snd freq_range + freq_res) freq_res"

text \<open>
  \<^verbatim>\<open>if not aperiodic_mode\<close> holds for \<^verbatim>\<open>None\<close> and for the empty string.
\<close>

definition gen_aperiodic ::
  "ap_funcs \<Rightarrow> real list \<Rightarrow> real list \<Rightarrow> string option \<Rightarrow> error + real list" where
  "gen_aperiodic F xs aperiodic_params aperiodic_mode =
     (case (case aperiodic_mode of
              None \<Rightarrow> infer_ap_func aperiodic_params
            | Some m \<Rightarrow> if m = [] then infer_ap_func aperiodic_params else Inr m) of
        Inl e \<Rightarrow> Inl e
      | Inr mode \<Rightarrow>
          (case get_ap_func F mode of
             Inl e \<Rightarrow> Inl e
           | Inr ap_func \<Rightarrow> ap_func xs aperiodic_params))"

definition gen_peaks :: "real list \<Rightarrow> real list \<Rightarrow> error + real list" where
  "gen_peaks xs gauss_params = gaussian_function xs gauss_params"

definition gen_power_vals ::
  "ap_funcs \<Rightarrow> real list \<Rightarrow> real list \<Rightarrow> real list \<Rightarrow> real \<Rightarrow> rng \<Rightarrow> error + (real list \<times> rng)" where
  "gen_power_vals F xs aperiodic_params gauss_params nlv g =
     (case gen_aperiodic F xs aperiodic_params None of
        Inl e \<Rightarrow> Inl e
      | Inr aperiodic \<Rightarrow>
          (case gen_peaks xs gauss_params of
             Inl e \<Rightarrow> Inl e
           | Inr peaks \<Rightarrow>
               (case np_random_normal 0 nlv (length xs) g of
                  Inl e \<Rightarrow> Inl e
                | Inr (noise, g') \<Rightarrow>
                    Inr (np_power10 (np_add (np_add aperiodic peaks) noise), g'))))"

definition gen_power_spectrum ::
  "ap_funcs \<Rightarrow> real \<times> real \<Rightarrow> real list \<Rightarrow> gauss_input \<Rightarrow> real \<Rightarrow> real \<Rightarrow> rng
     \<Rightarrow> error + ((real list \<times> real list) \<times> rng)" where
  "gen_power_spectrum F freq_range aperiodic_params gauss_params nlv freq_res g =
     (case gen_freqs freq_range freq_res of
        Inl e \<Rightarrow> Inl e
      | Inr xs \<Rightarrow>
          (case gen_power_vals F xs aperiodic_params (check_flat gauss_params) nlv g of
             Inl e \<Rightarrow> Inl e
           | Inr (ys, g') \<Rightarrow> Inr ((xs, ys), g')))"

text \<open>
  The batch generator. Its state is the matrix \<open>ys\<close> (a list of rows), the list
  \<open>syn_params\<close> (\<open>None\<close> until a record is stored) and the random source.
  \<open>py_zip\<close> is \<^verbatim>\<open>zip(range(n_spectra), aperiodic_params, gauss_params, nlvs)\<close>: it
  stops with the shortest of its four arguments. \<open>spectrum_step\<close> is the loop body and
  \<open>spectra_loop\<close> the \<^verbatim>\<open>for\<close> loop; an exception in the body ends the call.
  The indices come from \<^verbatim>\<open>range(n_spectra)\<close> and both containers have \<open>n_spectra\<close> entries,
  so the two stores are always in range.
\<close>

type_synonym batch_state = "real list list \<times> SynParams option list \<times> rng"

definition py_zip ::
  "nat \<Rightarrow> real list iter \<Rightarrow> real list iter \<Rightarrow> real iter
     \<Rightarrow> (nat \<times> real list \<times> real list \<times> real) list" where
  "py_zip n aps gps nls =
     zip [0..<n] (zip (iter_take n aps) (zip (iter_take n gps) (iter_take n nls)))"

fun spectrum_step ::
  "ap_funcs \<Rightarrow> real list \<Rightarrow> nat \<times> real list \<times> real list \<times> real \<Rightarrow> batch_state
     \<Rightarrow> error + batch_state" where
  "spectrum_step F xs (ind, bgp, gp, nlv) (ys, syn_params, g) =
     (case group_three gp of
        Inl e \<Rightarrow> Inl e
      | Inr ts \<Rightarrow>
          (case gen_power_vals F xs bgp gp nlv g of
             Inl e \<Rightarrow> Inl e
           | Inr (row, g') \<Rightarrow>
               Inr (ys[ind := row],
                    syn_params[ind := Some \<lparr>aperiodic_params_copy = bgp,
                                            sorted_grouped_peak_params = sort ts,
                                            noise_level = nlv\<rparr>],
                    g')))"

fun spectra_loop ::
  "ap_funcs \<Rightarrow> real list \<Rightarrow> (nat \<times> real list \<times> real list \<times> real) list \<Rightarrow> batch_state
     \<Rightarrow> error + batch_state" where
  "spectra_loop F xs [] st = Inr st"
| "spectra_loop F xs (item # items) st =
     (case spectrum_step F xs item st of
        Inl e \<Rightarrow> Inl e
      | Inr st' \<Rightarrow> spectra_loop F xs items st')"

text \<open>
  \<^verbatim>\<open>np.zeros([n_spectra, len(xs)])\<close> rejects a negative \<open>n_spectra\<close>.
\<close>

definition gen_group_power_spectra ::
  "ap_funcs \<Rightarrow> int \<Rightarrow> real \<times> real \<Rightarrow> real list param_input \<Rightarrow> real list param_input
     \<Rightarrow> real param_input \<Rightarrow> real \<Rightarrow> rng
     \<Rightarrow> error + ((real list \<times> real list list \<times> SynParams option list) \<times> rng)" where
  "gen_group_power_spectra F n_spectra freq_range aperiodic_params gauss_params nlvs freq_res g =
     (case gen_freqs freq_range freq_res of
        Inl e \<Rightarrow> Inl e
      | Inr xs \<Rightarrow>
          if n_spectra < 0 then Inl ValueError
          else
            (case spectra_loop F xs
                    (py_zip (nat n_spectra)
                       (check_iter aperiodic_params n_spectra)
                       (check_iter gauss_params n_spectra)
                       (check_iter nlvs n_spectra))
                    (replicate (nat n_spectra) (np_zeros (length xs)),
                     replicate (nat n_spectra) None, g) of
               Inl e \<Rightarrow> Inl e
             | Inr (ys, syn_params, g') \<Rightarrow> Inr ((xs, ys, syn_params), g')))"

text \<open>The default arguments \<^verbatim>\<open>nlv=0.005\<close> (\<^verbatim>\<open>nlvs=0.005\<close>) and \<^verbatim>\<open>freq_res=0.5\<close>.\<close>

definition default_nlv :: real where
  "default_nlv = 5 / 1000"

definition default_freq_res :: real where
  "default_freq_res = 1 / 2"

subsection \<open>A concrete environment for evaluating examples\<close>

text \<open>
  The theorems below hold for every pair of aperiodic functions and every random stream.
  Closed examples need one of each: the log-log curves \<open>offset - log\<^sub>1\<^sub>0 (x ^ exponent)\<close> and
  \<open>offset - log\<^sub>1\<^sub>0 (knee + x ^ exponent)\<close>, and a stream that alternates between 1/2 and -1/2.
\<close>

definition sample_funcs :: ap_funcs where
  "sample_funcs =
     \<lparr>fixed_fn = (\<lambda>x offset exponent. offset - log 10 (x powr exponent)),
      knee_fn = (\<lambda>x offset knee exponent. offset - log 10 (knee + x powr exponent))\<rparr>"

definition sample_rng :: rng where
  "sample_rng i = (if even i then 1 / 2 else - (1 / 2))"

section \<open>Auxiliary facts\<close>

subsection \<open>Arrays and the aperiodic curve\<close>

lemma length_np_add: "length (np_add a b) = min (length a) (length b)"
  by (simp add: np_add_def)

lemma nth_np_add: "i < length a \<Longrightarrow> i < length b \<Longrightarrow> np_add a b ! i = a ! i + b ! i"
  by (simp add: np_add_def)

lemma call_fixed_2:
  "length ps = 2 \<Longrightarrow>
   call_fixed F xs ps = Inr (map (\<lambda>x. fixed_fn F x (ps ! 0) (ps ! 1)) xs)"
  by (auto simp: call_fixed_def length_Suc_conv numeral_2_eq_2 split: list.splits)

lemma call_knee_3:
  "length ps = 3 \<Longrightarrow>
   call_knee F xs ps = Inr (map (\<lambda>x. knee_fn F x (ps ! 0) (ps ! 1) (ps ! 2)) xs)"
  by (auto simp: call_knee_def length_Suc_conv numeral_3_eq_3 split: list.splits)

lemma gen_aperiodic_valid:
  assumes "length ps = 2 \<or> length ps = 3"
  shows "\<exists>ap. gen_aperiodic F xs ps None = Inr ap \<and> length ap = length xs"
  using assms
  by (auto simp: gen_aperiodic_def infer_ap_func_def get_ap_func_def call_fixed_def call_knee_def
      length_Suc_conv numeral_2_eq_2 numeral_3_eq_3)

lemma gen_freqs_total: "freq_res \<noteq> 0 \<Longrightarrow> \<exists>xs. gen_freqs fr freq_res = Inr xs"
  by (simp add: gen_freqs_def np_arange_def)

lemma gen_freqs_example:
  "gen_freqs (1, 50) (1 / 2) = Inr (map (\<lambda>i. 1 + real i / 2) [0..<99])"
proof -
  have "\<lceil>(50 + 1 / 2 - 1) / (1 / 2) :: real\<rceil> = 99" by simp
  then show ?thesis by (simp add: gen_freqs_def np_arange_def)
qed

lemma default_nlv_nonneg: "0 \<le> default_nlv"
  by (simp add: default_nlv_def)

lemma default_freq_res_nonzero: "default_freq_res \<noteq> 0"
  by (simp add: default_freq_res_def)

lemma list2_eq: "length l = 2 \<Longrightarrow> l = [l ! 0, l ! 1]"
  by (auto simp: length_Suc_conv numeral_2_eq_2)

subsection \<open>Triples of peak parameters\<close>

text \<open>
  The peak curve at a frequency is the sum of the bumps of the triples: the accumulating
  sum of \<open>gaussian_sum\<close> is the list sum over \<open>group_three\<close>.
\<close>

lemma group_three_total:
  "length ps mod 3 = 0 \<Longrightarrow> \<exists>ts. group_three ps = Inr ts"
proof (induction ps rule: group_three.induct)
  case 1
  then show ?case by simp
next
  case (2 a b c rest)
  then have "length rest mod 3 = 0" by (simp add: mod_Suc split: if_splits)
  with 2 show ?case by auto
qed simp_all

lemma group_three_length:
  "group_three ps = Inr ts \<Longrightarrow> length ps = 3 * length ts"
  by (induction ps arbitrary: ts rule: group_three.induct) (auto split: sum.splits)

lemma group_three_append:
  "group_three A = Inr ta \<Longrightarrow> group_three B = Inr tb \<Longrightarrow> group_three (A @ B) = Inr (ta @ tb)"
  by (induction A arbitrary: ta rule: group_three.induct) (auto split: sum.splits)

lemma group_three_ungroup:
  "group_three (concat (map (\<lambda>(c, h, w). [c, h, w]) ts)) = Inr ts"
  by (induction ts) auto

lemma gaussian_sum_groups:
  "group_three ps = Inr ts \<Longrightarrow> length ys = length xs \<Longrightarrow>
   gaussian_sum xs ys ps =
     Inr (map (\<lambda>i. ys ! i + (\<Sum>(c, h, w)\<leftarrow>ts. gaussian_bump c h w (xs ! i))) [0..<length xs])"
proof (induction xs ys ps arbitrary: ts rule: gaussian_sum.induct)
  case (1 xs ys)
  then have "ts = []" by simp
  moreover have "map (\<lambda>i. ys ! i) [0..<length xs] = ys"
    using 1(2) by (metis map_nth)
  ultimately show ?case by simp
next
  case (2 xs ys ctr hgt wid rest)
  from "2.prems"(1) obtain ts' where ts': "group_three rest = Inr ts'" "ts = (ctr, hgt, wid) # ts'"
    by (auto split: sum.splits)
  have len: "length (np_add ys (map (gaussian_bump ctr hgt wid) xs)) = length xs"
    using "2.prems"(2) by (simp add: length_np_add)
  show ?case
    unfolding gaussian_sum.simps "2.IH"[OF ts'(1) len]
    using "2.prems"(2) by (simp add: ts'(2) nth_np_add add.assoc)
qed (simp_all only: group_three.simps sum.distinct)

lemma gen_peaks_groups:
  assumes g: "group_three ps = Inr ts"
  shows "gen_peaks xs ps = Inr (map (\<lambda>x. \<Sum>(c, h, w)\<leftarrow>ts. gaussian_bump c h w x) xs)"
proof -
  let ?s = "\<lambda>x. \<Sum>(c, h, w)\<leftarrow>ts. gaussian_bump c h w x"
  have len: "length (replicate (length xs) (0::real)) = length xs" by simp
  have "map (\<lambda>i. replicate (length xs) 0 ! i + ?s (xs ! i)) [0..<length xs] = map ?s xs"
    by (rule nth_equalityI) simp_all
  with gaussian_sum_groups[OF g len] show ?thesis
    by (simp only: gen_peaks_def gaussian_function_def np_zeros_def)
qed

lemma map2_add_maps:
  "map2 (+) (map f xs) (map g xs) = map (\<lambda>x. f x + g x) (xs::real list)"
  by (induction xs) simp_all

lemma sum_list_mset_cong:
  fixes f :: "'a \<Rightarrow> real"
  assumes "mset ta = mset tb"
  shows "sum_list (map f ta) = sum_list (map f tb)"
proof -
  have "sum_list (map f ta) = sum_mset (image_mset f (mset ta))"
    by (metis mset_map sum_mset_sum_list)
  also have "\<dots> = sum_mset (image_mset f (mset tb))" by (simp add: assms)
  also have "\<dots> = sum_list (map f tb)" by (metis mset_map sum_mset_sum_list)
  finally show ?thesis .
qed

lemma gen_peaks_perm:
  assumes "group_three A = Inr ta" "group_three B = Inr tb" "mset ta = mset tb"
  shows "gen_peaks xs A = gen_peaks xs B"
  unfolding gen_peaks_groups[OF assms(1)] gen_peaks_groups[OF assms(2)]
  using sum_list_mset_cong[OF assms(3)] by simp

lemma sorted_map_fst_lex:
  fixes ts :: "(real \<times> real \<times> real) list"
  shows "sorted ts \<Longrightarrow> sorted (map fst ts)"
  unfolding sorted_map
  by (erule sorted_wrt_mono_rel[rotated]) (auto simp: less_eq_prod_def)

lemma sort_example:
  "sort [(20, 1 / 2, 1), (10, 1, 1 :: real)] = [(10 :: real, 1 :: real, 1), (20, 1 / 2, 1)]"
  by (simp add: less_eq_prod_def)

subsection \<open>One spectrum\<close>

lemma gen_power_vals_valid:
  assumes ap: "length ap = 2 \<or> length ap = 3" and gp: "length gp mod 3 = 0" and nl: "0 \<le> nlv"
  shows "\<exists>aperiodic peaks.
           gen_aperiodic F xs ap None = Inr aperiodic \<and> length aperiodic = length xs \<and>
           gen_peaks xs gp = Inr peaks \<and> length peaks = length xs \<and>
           gen_power_vals F xs ap gp nlv g =
             Inr (map (\<lambda>i. 10 powr (aperiodic ! i + peaks ! i + nlv * g i)) [0..<length xs],
                  (\<lambda>i. g (length xs + i)))"
proof -
  obtain aperiodic where a: "gen_aperiodic F xs ap None = Inr aperiodic" "length aperiodic = length xs"
    using gen_aperiodic_valid[OF ap] by blast
  obtain ts where ts: "group_three gp = Inr ts"
    using group_three_total[OF gp] by blast
  define peaks where "peaks = map (\<lambda>x. \<Sum>(c, h, w)\<leftarrow>ts. gaussian_bump c h w x) xs"
  have p: "gen_peaks xs gp = Inr peaks" "length peaks = length xs"
    by (simp_all add: gen_peaks_groups[OF ts] peaks_def)
  have n: "np_random_normal 0 nlv (length xs) g =
             Inr (map (\<lambda>i. nlv * g i) [0..<length xs], (\<lambda>i. g (length xs + i)))"
    using nl by (simp add: np_random_normal_def)
  have v: "np_power10 (np_add (np_add aperiodic peaks) (map (\<lambda>i. nlv * g i) [0..<length xs])) =
           map (\<lambda>i. 10 powr (aperiodic ! i + peaks ! i + nlv * g i)) [0..<length xs]"
    by (rule nth_equalityI) (simp_all add: np_power10_def np_add_def a(2) p(2))
  have "gen_power_vals F xs ap gp nlv g =
             Inr (map (\<lambda>i. 10 powr (aperiodic ! i + peaks ! i + nlv * g i)) [0..<length xs],
                  (\<lambda>i. g (length xs + i)))"
    by (simp add: gen_power_vals_def a(1) p(1) n v)
  with a p show ?thesis by blast
qed

subsection \<open>The loop of the batch generator\<close>

lemma spectrum_step_valid:
  assumes "length a = 2 \<or> length a = 3" "group_three gp = Inr ts" "0 \<le> v"
  shows "\<exists>row g'. spectrum_step F xs (i, a, gp, v) (ys, sps, g) =
           Inr (ys[i := row],
                sps[i := Some \<lparr>aperiodic_params_copy = a, sorted_grouped_peak_params = sort ts,
                                noise_level = v\<rparr>], g')"
proof -
  have "length gp mod 3 = 0" using group_three_length[OF assms(2)] by simp
  from gen_power_vals_valid[OF assms(1) this assms(3), of F xs g]
  obtain row g' where "gen_power_vals F xs a gp v g = Inr (row, g')" by blast
  then show ?thesis by (intro exI[of _ row] exI[of _ g']) (simp add: assms(2))
qed

lemma spectrum_step_Inr:
  assumes "spectrum_step F xs (i, a, gp, v) (ys, sps, g) = Inr (ys', sps', g')"
  shows "\<exists>ts row. group_three gp = Inr ts \<and> ys' = ys[i := row] \<and>
           sps' = sps[i := Some \<lparr>aperiodic_params_copy = a, sorted_grouped_peak_params = sort ts,
                                   noise_level = v\<rparr>]"
  using assms by (auto split: sum.splits)

lemma spectra_loop_total:
  assumes "\<forall>(i, a, gp, v) \<in> set its. (length a = 2 \<or> length a = 3) \<and> length gp mod 3 = 0 \<and> 0 \<le> v"
  shows "\<exists>st'. spectra_loop F xs its st = Inr st'"
  using assms
proof (induction its arbitrary: st)
  case Nil
  show ?case by (rule exI[of _ st]) simp
next
  case (Cons it its)
  obtain i a gp v where it: "it = (i, a, gp, v)" by (cases it) auto
  obtain ys sps g where st: "st = (ys, sps, g)" by (metis prod_cases3)
  from Cons.prems it have ok: "length a = 2 \<or> length a = 3" "length gp mod 3 = 0" "0 \<le> v"
    by auto
  obtain ts where ts: "group_three gp = Inr ts" using group_three_total[OF ok(2)] by blast
  from spectrum_step_valid[OF ok(1) ts ok(3), of F xs i ys sps g]
  obtain st1 where s1: "spectrum_step F xs it st = Inr st1" unfolding it st by blast
  from Cons.prems have "\<forall>(i, a, gp, v) \<in> set its. (length a = 2 \<or> length a = 3) \<and> length gp mod 3 = 0 \<and> 0 \<le> v"
    by simp
  from Cons.IH[OF this, of st1] show ?case by (simp add: s1)
qed

lemma spectra_loop_Inr:
  assumes "spectra_loop F xs its (ys, sps, g) = Inr (ys', sps', g')" "distinct (map fst its)"
  shows "length sps' = length sps \<and> length ys' = length ys \<and>
         (\<forall>j. j \<notin> fst ` set its \<longrightarrow> sps' ! j = sps ! j \<and> ys' ! j = ys ! j) \<and>
         (\<forall>i a gp v. (i, a, gp, v) \<in> set its \<and> i < length sps \<longrightarrow>
            (\<exists>ts. group_three gp = Inr ts \<and>
               sps' ! i = Some \<lparr>aperiodic_params_copy = a, sorted_grouped_peak_params = sort ts,
                                 noise_level = v\<rparr>))"
  using assms
proof (induction its arbitrary: ys sps g)
  case Nil
  then show ?case by simp
next
  case (Cons it its)
  obtain i a gp v where it: "it = (i, a, gp, v)" by (cases it) auto
  from Cons.prems(1) obtain st1 where s1: "spectrum_step F xs it (ys, sps, g) = Inr st1"
    and l1: "spectra_loop F xs its st1 = Inr (ys', sps', g')"
    by (auto split: sum.splits)
  obtain ys1 sps1 g1 where st1: "st1 = (ys1, sps1, g1)" by (metis prod_cases3)
  from spectrum_step_Inr[OF s1[unfolded it st1]]
  obtain ts row where step: "group_three gp = Inr ts" "ys1 = ys[i := row]"
    "sps1 = sps[i := Some \<lparr>aperiodic_params_copy = a, sorted_grouped_peak_params = sort ts,
                            noise_level = v\<rparr>]"
    by blast
  from Cons.prems(2) have d: "distinct (map fst its)" and ni: "i \<notin> fst ` set its"
    by (simp_all add: it)
  note IH = Cons.IH[OF l1[unfolded st1] d]
  have len: "length sps' = length sps" "length ys' = length ys"
    using IH step by simp_all
  have keep: "sps' ! j = sps ! j \<and> ys' ! j = ys ! j" if "j \<notin> fst ` set (it # its)" for j
  proof -
    from that have "j \<noteq> i" "j \<notin> fst ` set its" by (simp_all add: it)
    with IH step show ?thesis by simp
  qed
  have rec: "\<exists>ts. group_three gp' = Inr ts \<and>
               sps' ! i' = Some \<lparr>aperiodic_params_copy = a', sorted_grouped_peak_params = sort ts,
                                 noise_level = v'\<rparr>"
    if "(i', a', gp', v') \<in> set (it # its)" "i' < length sps" for i' a' gp' v'
  proof (cases "(i', a', gp', v') = it")
    case True
    then have e: "i' = i" "a' = a" "gp' = gp" "v' = v" by (simp_all add: it)
    from IH ni have "sps' ! i = sps1 ! i" by blast
    with that(2) step show ?thesis by (simp add: e)
  next
    case False
    with that(1) have "(i', a', gp', v') \<in> set its" by simp
    moreover have "i' < length sps1" using that(2) step by simp
    ultimately show ?thesis using IH by blast
  qed
  from len keep rec show ?case by blast
qed

text \<open>
  The tuples \<open>py_zip\<close> hands to the loop: tuple \<open>i\<close> exists when \<open>i\<close> is below the bound and each
  of the three sources gets as far as its item \<open>i\<close>.
\<close>

lemma length_iter_take: "j < length (iter_take n it) \<longleftrightarrow> j < n \<and> nth_item it j \<noteq> None"
  by (cases it) auto

lemma nth_iter_take: "j < length (iter_take n it) \<Longrightarrow> nth_item it j = Some (iter_take n it ! j)"
  by (cases it) auto

lemma nth_item_past_end: "nth_item it m = None \<Longrightarrow> m \<le> j \<Longrightarrow> nth_item it j = None"
  by (cases it) (auto split: if_splits)

lemma py_zip_mem:
  "(i, a, gp, v) \<in> set (py_zip n A G N) \<longleftrightarrow>
     i < n \<and> nth_item A i = Some a \<and> nth_item G i = Some gp \<and> nth_item N i = Some v"
  (is "?l \<longleftrightarrow> ?r")
proof
  assume ?l
  then obtain k where k: "[0..<n] ! k = i" "k < n"
      "zip (iter_take n A) (zip (iter_take n G) (iter_take n N)) ! k = (a, gp, v)"
      "k < length (iter_take n A)" "k < length (iter_take n G)" "k < length (iter_take n N)"
    unfolding py_zip_def by (auto simp: in_set_zip)
  then have "k = i" by simp
  with k show ?r
    using nth_iter_take[of i n A] nth_iter_take[of i n G] nth_iter_take[of i n N] by simp
next
  assume r: ?r
  then have l: "i < length (iter_take n A)" "i < length (iter_take n G)" "i < length (iter_take n N)"
    by (simp_all add: length_iter_take)
  with r have "iter_take n A ! i = a" "iter_take n G ! i = gp" "iter_take n N ! i = v"
    using nth_iter_take[of i n A] nth_iter_take[of i n G] nth_iter_take[of i n N] by simp_all
  with l r show ?l
    unfolding py_zip_def by (auto simp: in_set_zip intro!: exI[of _ i])
qed

lemma py_zip_distinct: "distinct (map fst (py_zip n A G N))"
  unfolding py_zip_def by (simp add: map_fst_zip_take distinct_take)

lemma py_zip_indices:
  "j \<in> fst ` set (py_zip n A G N) \<longleftrightarrow>
     j < n \<and> nth_item A j \<noteq> None \<and> nth_item G j \<noteq> None \<and> nth_item N j \<noteq> None"
proof -
  have "j \<in> fst ` set (py_zip n A G N) \<longleftrightarrow> (\<exists>a gp v. (j, a, gp, v) \<in> set (py_zip n A G N))"
    by force
  then show ?thesis by (simp add: py_zip_mem)
qed

text \<open>
  The result of a batch call whose sources yield valid parameters: the loop runs \<open>m\<close> times,
  where \<open>m\<close> is \<open>n_spectra\<close> or the first index at which a source is exhausted. Records and
  rows below \<open>m\<close> are written, the others keep their initial value.
\<close>

lemma gen_group_result:
  assumes r: "freq_res \<noteq> 0" and n0: "0 \<le> n" and m: "m \<le> nat n"
    and stop: "m = nat n \<or> nth_item (check_iter a_in n) m = None \<or> nth_item (check_iter g_in n) m = None
                 \<or> nth_item (check_iter l_in n) m = None"
    and valid: "\<forall>j<m. \<exists>a gp v. nth_item (check_iter a_in n) j = Some a \<and> (length a = 2 \<or> length a = 3) \<and>
                  nth_item (check_iter g_in n) j = Some gp \<and> length gp mod 3 = 0 \<and>
                  nth_item (check_iter l_in n) j = Some v \<and> 0 \<le> v"
  shows "\<exists>xs ys sps g'.
           gen_group_power_spectra F n fr a_in g_in l_in freq_res g = Inr ((xs, ys, sps), g') \<and>
           gen_freqs fr freq_res = Inr xs \<and> length ys = nat n \<and> length sps = nat n \<and>
           (\<forall>j<m. \<exists>a gp v ts. nth_item (check_iter a_in n) j = Some a \<and> nth_item (check_iter g_in n) j = Some gp \<and>
               nth_item (check_iter l_in n) j = Some v \<and> group_three gp = Inr ts \<and>
               sps ! j = Some \<lparr>aperiodic_params_copy = a, sorted_grouped_peak_params = sort ts,
                                noise_level = v\<rparr>) \<and>
           (\<forall>j. m \<le> j \<and> j < nat n \<longrightarrow> sps ! j = None \<and> ys ! j = np_zeros (length xs))"
proof -
  obtain xs where xs: "gen_freqs fr freq_res = Inr xs" using gen_freqs_total[OF r] by blast
  let ?its = "py_zip (nat n) (check_iter a_in n) (check_iter g_in n) (check_iter l_in n)"
  let ?ys0 = "replicate (nat n) (np_zeros (length xs))"
  let ?sp0 = "replicate (nat n) (None :: SynParams option)"
  have idx: "j \<in> fst ` set ?its \<longleftrightarrow> j < m" for j
  proof
    assume "j \<in> fst ` set ?its"
    then have j: "j < nat n" "nth_item (check_iter a_in n) j \<noteq> None" "nth_item (check_iter g_in n) j \<noteq> None"
      "nth_item (check_iter l_in n) j \<noteq> None"
      by (simp_all add: py_zip_indices)
    show "j < m"
    proof (rule ccontr)
      assume "\<not> j < m"
      then have "m \<le> j" by simp
      with stop j(1) have "nth_item (check_iter a_in n) m = None \<or> nth_item (check_iter g_in n) m = None
                 \<or> nth_item (check_iter l_in n) m = None" by auto
      with \<open>m \<le> j\<close> j show False
        using nth_item_past_end[of "check_iter a_in n" m j] nth_item_past_end[of "check_iter g_in n" m j]
          nth_item_past_end[of "check_iter l_in n" m j] by auto
    qed
  next
    assume "j < m"
    with valid m show "j \<in> fst ` set ?its" by (fastforce simp: py_zip_indices)
  qed
  have ok: "\<forall>(i, a, gp, v) \<in> set ?its. (length a = 2 \<or> length a = 3) \<and> length gp mod 3 = 0 \<and> 0 \<le> v"
  proof (clarify)
    fix i a gp v assume mem: "(i, a, gp, v) \<in> set ?its"
    then have "i \<in> fst ` set ?its" by force
    then have "i < m" by (simp add: idx)
    with valid obtain a' gp' v' where
      "nth_item (check_iter a_in n) i = Some a'" "length a' = 2 \<or> length a' = 3"
      "nth_item (check_iter g_in n) i = Some gp'" "length gp' mod 3 = 0"
      "nth_item (check_iter l_in n) i = Some v'" "0 \<le> v'" by meson
    with mem show "(length a = 2 \<or> length a = 3) \<and> length gp mod 3 = 0 \<and> 0 \<le> v"
      by (simp add: py_zip_mem)
  qed
  from spectra_loop_total[OF ok, of F xs "(?ys0, ?sp0, g)"]
  obtain ys sps g' where loop: "spectra_loop F xs ?its (?ys0, ?sp0, g) = Inr (ys, sps, g')"
    by (metis prod_cases3)
  note L = spectra_loop_Inr[OF loop py_zip_distinct]
  have res: "gen_group_power_spectra F n fr a_in g_in l_in freq_res g = Inr ((xs, ys, sps), g')"
    using n0 loop by (simp add: gen_group_power_spectra_def xs)
  have len: "length ys = nat n" "length sps = nat n" using L by simp_all
  have filled: "\<exists>a gp v ts. nth_item (check_iter a_in n) j = Some a \<and> nth_item (check_iter g_in n) j = Some gp \<and>
               nth_item (check_iter l_in n) j = Some v \<and> group_three gp = Inr ts \<and>
               sps ! j = Some \<lparr>aperiodic_params_copy = a, sorted_grouped_peak_params = sort ts,
                                noise_level = v\<rparr>" if "j < m" for j
  proof -
    from valid that obtain a gp v where
      it: "nth_item (check_iter a_in n) j = Some a" "nth_item (check_iter g_in n) j = Some gp" "nth_item (check_iter l_in n) j = Some v"
      by meson
    with that m have "(j, a, gp, v) \<in> set ?its" by (simp add: py_zip_mem)
    moreover have "j < length ?sp0" using that m by simp
    ultimately obtain ts where "group_three gp = Inr ts"
      "sps ! j = Some \<lparr>aperiodic_params_copy = a, sorted_grouped_peak_params = sort ts,
                                noise_level = v\<rparr>"
      using L by blast
    with it show ?thesis by blast
  qed
  have rest: "sps ! j = None \<and> ys ! j = np_zeros (length xs)" if "m \<le> j" "j < nat n" for j
  proof -
    from that have "j \<notin> fst ` set ?its" by (simp add: idx)
    with L have "sps ! j = ?sp0 ! j \<and> ys ! j = ?ys0 ! j" by blast
    with that(2) show ?thesis by simp
  qed
  from res xs len filled rest show ?thesis by blast
qed

lemma gen_group_items:
  assumes res: "gen_group_power_spectra F n fr a_in g_in l_in freq_res g = Inr ((xs, ys, sps), g')"
    and j: "j < nat n"
    and it: "nth_item (check_iter a_in n) j = Some a" "nth_item (check_iter g_in n) j = Some gp"
      "nth_item (check_iter l_in n) j = Some v"
  shows "\<exists>ts. group_three gp = Inr ts \<and>
           sps ! j = Some \<lparr>aperiodic_params_copy = a, sorted_grouped_peak_params = sort ts,
                            noise_level = v\<rparr>"
proof -
  let ?its = "py_zip (nat n) (check_iter a_in n) (check_iter g_in n) (check_iter l_in n)"
  from res obtain xs' where xs': "gen_freqs fr freq_res = Inr xs'"
    by (auto simp: gen_group_power_spectra_def split: sum.splits)
  from res have loop: "spectra_loop F xs' ?its
       (replicate (nat n) (np_zeros (length xs')), replicate (nat n) None, g) = Inr (ys, sps, g')"
    by (auto simp: gen_group_power_spectra_def xs' split: sum.splits if_splits)
  note L = spectra_loop_Inr[OF loop py_zip_distinct]
  from j it have "(j, a, gp, v) \<in> set ?its" by (simp add: py_zip_mem)
  moreover have "j < length (replicate (nat n) (None :: SynParams option))" using j by simp
  ultimately show ?thesis using L by blast
qed

section \<open>The claims\<close>

subsection \<open>C1: a source that runs out\<close>

text \<open>
  C1: a batch call in which one of the three normalized sources yields fewer than
  \<open>n_spectra\<close> items raises an InsufficientParametersError rather than returning a result.
  The docstring of \<^verbatim>\<open>gen_group_power_spectra\<close> promises the same completeness: a matrix of
  power values and a list of \<^verbatim>\<open>SynParams\<close>, one for each of the \<open>n_spectra\<close> spectra, each
  spectrum with parameters pulled from its generator. The code does not keep to it. The loop
  iterates over \<^verbatim>\<open>zip(range(n_spectra), ...)\<close>, which stops at its shortest argument without
  raising, and the slots allocated before the loop stay as they were. The theorem evaluates
  \<^verbatim>\<open>gen_group_power_spectra(2, [1, 50], (p for p in [[0, 2]]), [10, 1, 1])\<close>: the call returns,
  the second record is still \<open>None\<close> and the second row is all zero.
\<close>

theorem short_source_counterexample:
  "gen_group_power_spectra sample_funcs 2 (1, 50) (Generator (Items [[0, 2]]))
        (Single [10, 1, 1]) (Single default_nlv) default_freq_res sample_rng
     \<noteq> Inl InsufficientParametersError \<and>
   map_sum id (snd \<circ> snd \<circ> fst)
     (gen_group_power_spectra sample_funcs 2 (1, 50) (Generator (Items [[0, 2]]))
        (Single [10, 1, 1]) (Single default_nlv) default_freq_res sample_rng) =
     Inr [Some \<lparr>aperiodic_params_copy = [0, 2], sorted_grouped_peak_params = [(10, 1, 1)],
                noise_level = default_nlv\<rparr>, None] \<and>
   map_sum id ((\<lambda>ys. ys ! 1) \<circ> fst \<circ> snd \<circ> fst)
     (gen_group_power_spectra sample_funcs 2 (1, 50) (Generator (Items [[0, 2]]))
        (Single [10, 1, 1]) (Single default_nlv) default_freq_res sample_rng) =
     Inr (np_zeros 99)"
proof -
  have "\<exists>xs ys sps g'.
           gen_group_power_spectra sample_funcs 2 (1, 50) (Generator (Items [[0, 2]]))
             (Single [10, 1, 1]) (Single default_nlv) default_freq_res sample_rng =
             Inr ((xs, ys, sps), g') \<and>
           gen_freqs (1, 50) default_freq_res = Inr xs \<and> length ys = nat 2 \<and> length sps = nat 2 \<and>
           (\<forall>j<1. \<exists>a gp v ts. nth_item (check_iter (Generator (Items [[0, 2]])) 2) j = Some a \<and>
               nth_item (check_iter (Single [10, 1, 1]) 2) j = Some gp \<and>
               nth_item (check_iter (Single default_nlv) 2) j = Some v \<and> group_three gp = Inr ts \<and>
               sps ! j = Some \<lparr>aperiodic_params_copy = a, sorted_grouped_peak_params = sort ts,
                                noise_level = v\<rparr>) \<and>
           (\<forall>j. 1 \<le> j \<and> j < nat 2 \<longrightarrow> sps ! j = None \<and> ys ! j = np_zeros (length xs))"
    by (rule gen_group_result) (simp_all add: default_nlv_nonneg default_freq_res_nonzero)
  then obtain xs ys sps g' where
    r: "gen_group_power_spectra sample_funcs 2 (1, 50) (Generator (Items [[0, 2]]))
             (Single [10, 1, 1]) (Single default_nlv) default_freq_res sample_rng =
             Inr ((xs, ys, sps), g')"
    and f: "gen_freqs (1, 50) default_freq_res = Inr xs"
    and l: "length sps = 2"
    and s0: "sps ! 0 = Some \<lparr>aperiodic_params_copy = [0, 2],
                             sorted_grouped_peak_params = [(10, 1, 1)],
                             noise_level = default_nlv\<rparr>"
    and s1: "sps ! 1 = None"
    and y1: "ys ! 1 = np_zeros (length xs)"
    by auto
  from list2_eq[OF l] s0 s1 have sps: "sps = [Some \<lparr>aperiodic_params_copy = [0, 2],
                             sorted_grouped_peak_params = [(10, 1, 1)],
                             noise_level = default_nlv\<rparr>, None]" by simp
  from f have "length xs = 99"
    by (auto simp: default_freq_res_def gen_freqs_example)
  with y1 have "ys ! 1 = np_zeros 99" by simp
  with r sps show ?thesis by simp
qed

subsection \<open>C2: the records of a batch\<close>

text \<open>
  C2: for a positive \<open>n\<close>, a batch call with one fixed aperiodic parameter set, one fixed
  peak parameter set and one fixed noise level returns \<open>n\<close> records that all report these
  parameters; for \<^verbatim>\<open>gen_group_power_spectra(n, [1,50], [0,2], [10,1,1])\<close> every record reports
  \<open>[0, 2]\<close> and \<open>[(10, 1, 1)]\<close>. With a list of \<open>n\<close> aperiodic parameter sets, record \<open>i\<close>
  reports element \<open>i\<close> of the list. The parameter sets are valid ones (2 or 3 aperiodic
  parameters, a multiple of 3 peak parameters, a noise level that is not negative) and the
  resolution is not zero.
\<close>

theorem batch_parameter_fidelity:
  assumes n: "0 < n" and r: "freq_res \<noteq> 0"
    and ap: "length ap = 2 \<or> length ap = 3" and gp: "length gp mod 3 = 0" and nl: "0 \<le> nlv"
    and aps: "length aps = nat n" "\<forall>a\<in>set aps. length a = 2 \<or> length a = 3"
  shows "(\<exists>xs ys sps g' ts.
            gen_group_power_spectra F n fr (Single ap) (Single gp) (Single nlv) freq_res g =
              Inr ((xs, ys, sps), g') \<and>
            group_three gp = Inr ts \<and> length sps = nat n \<and>
            (\<forall>i<nat n. sps ! i = Some \<lparr>aperiodic_params_copy = ap,
                                         sorted_grouped_peak_params = sort ts,
                                         noise_level = nlv\<rparr>)) \<and>
         (\<exists>xs ys sps g'.
            gen_group_power_spectra F n (1, 50) (Single [0, 2]) (Single [10, 1, 1])
                (Single default_nlv) default_freq_res g =
              Inr ((xs, ys, sps), g') \<and>
            length sps = nat n \<and>
            (\<forall>i<nat n. sps ! i = Some \<lparr>aperiodic_params_copy = [0, 2],
                                         sorted_grouped_peak_params = [(10, 1, 1)],
                                         noise_level = default_nlv\<rparr>)) \<and>
         (\<exists>xs ys sps g' ts.
            gen_group_power_spectra F n fr (Sequence aps) (Single gp) (Single nlv) freq_res g =
              Inr ((xs, ys, sps), g') \<and>
            group_three gp = Inr ts \<and> length sps = nat n \<and>
            (\<forall>i<nat n. sps ! i = Some \<lparr>aperiodic_params_copy = aps ! i,
                                         sorted_grouped_peak_params = sort ts,
                                         noise_level = nlv\<rparr>))"
proof -
  from n have n0: "0 \<le> n" by simp
  obtain ts where ts: "group_three gp = Inr ts" using group_three_total[OF gp] by blast
  have fixed: "\<exists>xs ys sps g'.
            gen_group_power_spectra F n fr' (Single ap') (Single gp') (Single nlv') res g =
              Inr ((xs, ys, sps), g') \<and> length sps = nat n \<and>
            (\<forall>i<nat n. sps ! i = Some \<lparr>aperiodic_params_copy = ap',
                                         sorted_grouped_peak_params = sort ts',
                                         noise_level = nlv'\<rparr>)"
    if "res \<noteq> 0" "length ap' = 2 \<or> length ap' = 3" "group_three gp' = Inr ts'" "0 \<le> nlv'"
    for fr' ap' gp' ts' nlv' res
  proof -
    have len: "length gp' mod 3 = 0" using group_three_length[OF that(3)] by simp
    have v: "\<forall>j<nat n. \<exists>a gp v. nth_item (check_iter (Single ap') n) j = Some a \<and>
                  (length a = 2 \<or> length a = 3) \<and>
                  nth_item (check_iter (Single gp') n) j = Some gp \<and> length gp mod 3 = 0 \<and>
                  nth_item (check_iter (Single nlv') n) j = Some v \<and> 0 \<le> v"
      using that(2,4) len by simp
    from gen_group_result[OF that(1) n0 order_refl _ v, of F fr' g]
    obtain xs ys sps g' where
      res: "gen_group_power_spectra F n fr' (Single ap') (Single gp') (Single nlv') res g =
              Inr ((xs, ys, sps), g')" "length sps = nat n"
      and rec: "\<forall>j<nat n. \<exists>a gp v ts. nth_item (check_iter (Single ap') n) j = Some a \<and>
               nth_item (check_iter (Single gp') n) j = Some gp \<and>
               nth_item (check_iter (Single nlv') n) j = Some v \<and> group_three gp = Inr ts \<and>
               sps ! j = Some \<lparr>aperiodic_params_copy = a, sorted_grouped_peak_params = sort ts,
                                noise_level = v\<rparr>"
      by auto
    have "sps ! i = Some \<lparr>aperiodic_params_copy = ap', sorted_grouped_peak_params = sort ts',
                                noise_level = nlv'\<rparr>" if "i < nat n" for i
      using rec[rule_format, OF that] that \<open>group_three gp' = Inr ts'\<close> by auto
    with res show ?thesis by blast
  qed
  have one: "\<exists>xs ys sps g' ts.
            gen_group_power_spectra F n fr (Single ap) (Single gp) (Single nlv) freq_res g =
              Inr ((xs, ys, sps), g') \<and>
            group_three gp = Inr ts \<and> length sps = nat n \<and>
            (\<forall>i<nat n. sps ! i = Some \<lparr>aperiodic_params_copy = ap,
                                         sorted_grouped_peak_params = sort ts,
                                         noise_level = nlv\<rparr>)"
    using fixed[OF r ap ts nl, of fr] ts by blast
  have g1: "group_three [10, 1, 1] = Inr [(10, 1, 1)]" by simp
  have two: "\<exists>xs ys sps g'.
            gen_group_power_spectra F n (1, 50) (Single [0, 2]) (Single [10, 1, 1])
                (Single default_nlv) default_freq_res g =
              Inr ((xs, ys, sps), g') \<and>
            length sps = nat n \<and>
            (\<forall>i<nat n. sps ! i = Some \<lparr>aperiodic_params_copy = [0, 2],
                                         sorted_grouped_peak_params = [(10, 1, 1)],
                                         noise_level = default_nlv\<rparr>)"
    using fixed[OF default_freq_res_nonzero _ g1 default_nlv_nonneg, of "[0, 2]" "(1, 50)"]
    by simp
  have v: "\<forall>j<nat n. \<exists>a gp' v. nth_item (check_iter (Sequence aps) n) j = Some a \<and>
                  (length a = 2 \<or> length a = 3) \<and>
                  nth_item (check_iter (Single gp) n) j = Some gp' \<and> length gp' mod 3 = 0 \<and>
                  nth_item (check_iter (Single nlv) n) j = Some v \<and> 0 \<le> v"
    using aps gp nl by simp
  from gen_group_result[OF r n0 order_refl _ v, of F fr g]
  obtain xs ys sps g' where
    res: "gen_group_power_spectra F n fr (Sequence aps) (Single gp) (Single nlv) freq_res g =
              Inr ((xs, ys, sps), g')" "length sps = nat n"
    and rec: "\<forall>j<nat n. \<exists>a gp' v ts. nth_item (check_iter (Sequence aps) n) j = Some a \<and>
               nth_item (check_iter (Single gp) n) j = Some gp' \<and>
               nth_item (check_iter (Single nlv) n) j = Some v \<and> group_three gp' = Inr ts \<and>
               sps ! j = Some \<lparr>aperiodic_params_copy = a, sorted_grouped_peak_params = sort ts,
                                noise_level = v\<rparr>"
    by auto
  have "sps ! i = Some \<lparr>aperiodic_params_copy = aps ! i, sorted_grouped_peak_params = sort ts,
                                noise_level = nlv\<rparr>" if "i < nat n" for i
    using rec[rule_format, OF that] that aps(1) ts by auto
  with res ts have three: "\<exists>xs ys sps g' ts.
            gen_group_power_spectra F n fr (Sequence aps) (Single gp) (Single nlv) freq_res g =
              Inr ((xs, ys, sps), g') \<and>
            group_three gp = Inr ts \<and> length sps = nat n \<and>
            (\<forall>i<nat n. sps ! i = Some \<lparr>aperiodic_params_copy = aps ! i,
                                         sorted_grouped_peak_params = sort ts,
                                         noise_level = nlv\<rparr>)"
    by blast
  from one two three show ?thesis by blast
qed

theorem batch_parameter_fidelity_witness:
  "(\<exists>xs ys g'.
      gen_group_power_spectra sample_funcs 2 (1, 50) (Single [0, 2]) (Single [10, 1, 1])
          (Single default_nlv) default_freq_res sample_rng =
        Inr ((xs, ys,
              [Some \<lparr>aperiodic_params_copy = [0, 2], sorted_grouped_peak_params = [(10, 1, 1)],
                      noise_level = default_nlv\<rparr>,
               Some \<lparr>aperiodic_params_copy = [0, 2], sorted_grouped_peak_params = [(10, 1, 1)],
                      noise_level = default_nlv\<rparr>]), g')) \<and>
   (\<exists>xs ys g'.
      gen_group_power_spectra sample_funcs 2 (1, 50) (Sequence [[0, 2], [1, 1, 2]])
          (Single [10, 1, 1]) (Single default_nlv) default_freq_res sample_rng =
        Inr ((xs, ys,
              [Some \<lparr>aperiodic_params_copy = [0, 2], sorted_grouped_peak_params = [(10, 1, 1)],
                      noise_level = default_nlv\<rparr>,
               Some \<lparr>aperiodic_params_copy = [1, 1, 2], sorted_grouped_peak_params = [(10, 1, 1)],
                      noise_level = default_nlv\<rparr>]), g'))"
proof -
  have h: "(0::int) < 2" "default_freq_res \<noteq> 0" "length [0, 2 :: real] = 2 \<or> length [0, 2 :: real] = 3"
    "length [10, 1, 1 :: real] mod 3 = 0" "0 \<le> default_nlv"
    "length [[0, 2], [1, 1, 2 :: real]] = nat 2"
    "\<forall>a\<in>set [[0, 2], [1, 1, 2 :: real]]. length a = 2 \<or> length a = 3"
    by (simp_all add: default_nlv_nonneg default_freq_res_nonzero)
  note t = batch_parameter_fidelity[OF h, of sample_funcs "(1, 50)" sample_rng]
  from t obtain xs ys sps g' where
    a: "gen_group_power_spectra sample_funcs 2 (1, 50) (Single [0, 2]) (Single [10, 1, 1])
          (Single default_nlv) default_freq_res sample_rng = Inr ((xs, ys, sps), g')"
      "length sps = 2"
      "\<forall>i<nat 2. sps ! i = Some \<lparr>aperiodic_params_copy = [0, 2],
                                         sorted_grouped_peak_params = [(10, 1, 1)],
                                         noise_level = default_nlv\<rparr>"
    by auto
  from a(3) have "sps ! 0 = Some \<lparr>aperiodic_params_copy = [0, 2],
                                         sorted_grouped_peak_params = [(10, 1, 1)],
                                         noise_level = default_nlv\<rparr>"
     "sps ! 1 = Some \<lparr>aperiodic_params_copy = [0, 2],
                                         sorted_grouped_peak_params = [(10, 1, 1)],
                                         noise_level = default_nlv\<rparr>" by simp_all
  with list2_eq[OF a(2)] have sps: "sps = [Some \<lparr>aperiodic_params_copy = [0, 2], sorted_grouped_peak_params = [(10, 1, 1)],
                      noise_level = default_nlv\<rparr>,
               Some \<lparr>aperiodic_params_copy = [0, 2], sorted_grouped_peak_params = [(10, 1, 1)],
                      noise_level = default_nlv\<rparr>]" by simp
  from t obtain xs2 ys2 sps2 g2 ts where
    b: "gen_group_power_spectra sample_funcs 2 (1, 50) (Sequence [[0, 2], [1, 1, 2]])
          (Single [10, 1, 1]) (Single default_nlv) default_freq_res sample_rng = Inr ((xs2, ys2, sps2), g2)"
      "length sps2 = 2" "group_three [10, 1, 1] = Inr ts"
      "\<forall>i<nat 2. sps2 ! i = Some \<lparr>aperiodic_params_copy = [[0, 2], [1, 1, 2]] ! i,
                                         sorted_grouped_peak_params = sort ts,
                                         noise_level = default_nlv\<rparr>"
    by auto
  from b(3) have ts: "ts = [(10, 1, 1)]" by simp
  from b(4) have "sps2 ! 0 = Some \<lparr>aperiodic_params_copy = [0, 2],
                                         sorted_grouped_peak_params = [(10, 1, 1)],
                                         noise_level = default_nlv\<rparr>"
     "sps2 ! 1 = Some \<lparr>aperiodic_params_copy = [1, 1, 2],
                                         sorted_grouped_peak_params = [(10, 1, 1)],
                                         noise_level = default_nlv\<rparr>" by (simp_all add: ts)
  with list2_eq[OF b(2)] have sps2: "sps2 = [Some \<lparr>aperiodic_params_copy = [0, 2], sorted_grouped_peak_params = [(10, 1, 1)],
                      noise_level = default_nlv\<rparr>,
               Some \<lparr>aperiodic_params_copy = [1, 1, 2], sorted_grouped_peak_params = [(10, 1, 1)],
                      noise_level = default_nlv\<rparr>]" by simp
  from a(1) b(1) sps sps2 show ?thesis by blast
qed

subsection \<open>C3: what a record holds\<close>

text \<open>
  C3: the record of spectrum \<open>j\<close> of a batch holds the aperiodic parameters pulled for it, its
  peak parameters grouped into 3-tuples and sorted (a permutation of the groups, ascending
  in the first component), and its noise level. Peak parameters \<open>[20, 0.5, 1, 10, 1, 1]\<close> are
  recorded as \<open>[(10, 1, 1), (20, 0.5, 1)]\<close>.
\<close>

theorem syn_params_record:
  assumes "gen_group_power_spectra F n fr a_in g_in l_in freq_res g = Inr ((xs, ys, sps), g')"
    and "j < nat n"
    and "nth_item (check_iter a_in n) j = Some a" "nth_item (check_iter g_in n) j = Some gp"
      "nth_item (check_iter l_in n) j = Some v"
  shows "(\<exists>ts. group_three gp = Inr ts \<and>
            sps ! j = Some \<lparr>aperiodic_params_copy = a, sorted_grouped_peak_params = sort ts,
                             noise_level = v\<rparr> \<and>
            mset (sort ts) = mset ts \<and> sorted (map fst (sort ts))) \<and>
         (gp = [20, 1 / 2, 1, 10, 1, 1] \<longrightarrow>
            sps ! j = Some \<lparr>aperiodic_params_copy = a,
                             sorted_grouped_peak_params = [(10, 1, 1), (20, 1 / 2, 1)],
                             noise_level = v\<rparr>)"
proof -
  from gen_group_items[OF assms] obtain ts where
    ts: "group_three gp = Inr ts"
      "sps ! j = Some \<lparr>aperiodic_params_copy = a, sorted_grouped_peak_params = sort ts,
                             noise_level = v\<rparr>" by blast
  have s: "sorted (map fst (sort ts))" by (rule sorted_map_fst_lex) simp
  have ex: "sps ! j = Some \<lparr>aperiodic_params_copy = a,
                             sorted_grouped_peak_params = [(10, 1, 1), (20, 1 / 2, 1)],
                             noise_level = v\<rparr>" if "gp = [20, 1 / 2, 1, 10, 1, 1]"
  proof -
    from ts(1) that have "ts = [(20, 1 / 2, 1), (10, 1, 1)]" by simp
    with ts(2) show ?thesis by (simp only: sort_example)
  qed
  from ts s ex show ?thesis by auto
qed

theorem syn_params_record_witness:
  "\<exists>xs ys sps g'.
     gen_group_power_spectra sample_funcs 1 (1, 50) (Single [0, 2])
         (Single [20, 1 / 2, 1, 10, 1, 1]) (Single default_nlv) default_freq_res sample_rng =
       Inr ((xs, ys, sps), g') \<and>
     sps ! 0 = Some \<lparr>aperiodic_params_copy = [0, 2],
                      sorted_grouped_peak_params = [(10, 1, 1), (20, 1 / 2, 1)],
                      noise_level = default_nlv\<rparr>"
proof -
  have "\<exists>xs ys sps g'.
     gen_group_power_spectra sample_funcs 1 (1, 50) (Single [0, 2])
         (Single [20, 1 / 2, 1, 10, 1, 1]) (Single default_nlv) default_freq_res sample_rng =
       Inr ((xs, ys, sps), g')"
    using gen_group_result[of default_freq_res 1 1 "Single [0, 2]" "Single [20, 1 / 2, 1, 10, 1, 1]"
        "Single default_nlv" sample_funcs "(1, 50)" sample_rng]
    by (simp add: default_nlv_nonneg default_freq_res_nonzero) blast
  then obtain xs ys sps g' where
    r: "gen_group_power_spectra sample_funcs 1 (1, 50) (Single [0, 2])
         (Single [20, 1 / 2, 1, 10, 1, 1]) (Single default_nlv) default_freq_res sample_rng =
       Inr ((xs, ys, sps), g')" by blast
  from syn_params_record[OF r, of 0 "[0, 2]" "[20, 1 / 2, 1, 10, 1, 1]" default_nlv]
  have "sps ! 0 = Some \<lparr>aperiodic_params_copy = [0, 2],
                      sorted_grouped_peak_params = [(10, 1, 1), (20, 1 / 2, 1)],
                      noise_level = default_nlv\<rparr>" by simp
  with r show ?thesis by blast
qed

subsection \<open>C4: the frequency vector\<close>

text \<open>
  C4: for \<open>lo < hi\<close> and a resolution \<open>r > 0\<close> the frequency vector is strictly increasing,
  starts at \<open>lo\<close>, and its last element is at least \<open>hi\<close> and below \<open>hi + r\<close>.
  No theorem of this development states it. The bounds on the last element depend on how
  \<^verbatim>\<open>np.arange\<close> rounds the quotient \<open>(stop - start) / step\<close> and the elements in doubles, and
  the program does not keep them: \<^verbatim>\<open>gen_freqs([2, 3], 0.2)\<close> has 7 elements and ends at
  3.200000000000001, and \<^verbatim>\<open>gen_freqs([1, 50], 0.2)\<close> ends at 49.999999999999986. Over the
  exact reals of \<open>np_arange\<close> the rounding does not exist, so a proof there would say
  nothing about the program at such inputs.
\<close>

subsection \<open>C5: one spectrum from 1 to 50\<close>

text \<open>
  C5: \<^verbatim>\<open>gen_power_spectrum([1,50], [0,2], [10,1,1], nlv=0, freq_res=0.5)\<close> returns the 99
  frequencies from 1 to 50 in steps of 0.5 and 99 power values, all strictly positive.
\<close>

theorem gen_power_spectrum_example:
  "\<exists>xs ys g'. gen_power_spectrum F (1, 50) [0, 2] (Flat [10, 1, 1]) 0 (1 / 2) g =
              Inr ((xs, ys), g') \<and>
            xs = map (\<lambda>i. 1 + real i / 2) [0..<99] \<and>
            length xs = 99 \<and> hd xs = 1 \<and> last xs = 50 \<and>
            length ys = 99 \<and> (\<forall>y\<in>set ys. 0 < y)"
proof -
  let ?xs = "map (\<lambda>i. 1 + real i / 2) [0..<99]"
  obtain aperiodic peaks where
    h: "gen_power_vals F ?xs [0, 2] [10, 1, 1] 0 g =
             Inr (map (\<lambda>i. 10 powr (aperiodic ! i + peaks ! i + 0 * g i)) [0..<length ?xs],
                  (\<lambda>i. g (length ?xs + i)))"
    using gen_power_vals_valid[of "[0, 2]" "[10, 1, 1]" 0 F ?xs g] by auto
  have e: "hd ?xs = 1" "last ?xs = 50"
    by (simp_all add: hd_map last_map upt_conv_Cons)
  have v: "gen_power_spectrum F (1, 50) [0, 2] (Flat [10, 1, 1]) 0 (1 / 2) g =
      Inr ((?xs, map (\<lambda>i. 10 powr (aperiodic ! i + peaks ! i + 0 * g i)) [0..<length ?xs]),
           (\<lambda>i. g (length ?xs + i)))"
    by (simp add: gen_power_spectrum_def gen_freqs_example h)
  show ?thesis
    by (intro exI conjI, rule v, rule refl, simp, rule e(1), rule e(2)) simp_all
qed

theorem gen_power_spectrum_example_witness:
  "\<exists>xs ys g'. gen_power_spectrum sample_funcs (1, 50) [0, 2] (Flat [10, 1, 1]) 0 (1 / 2) sample_rng =
              Inr ((xs, ys), g') \<and>
            xs = map (\<lambda>i. 1 + real i / 2) [0..<99] \<and>
            length xs = 99 \<and> hd xs = 1 \<and> last xs = 50 \<and>
            length ys = 99 \<and> (\<forall>y\<in>set ys. 0 < y)"
  by (rule gen_power_spectrum_example[of sample_funcs sample_rng])

subsection \<open>C6: the power values\<close>

text \<open>
  C6: for a valid aperiodic parameter set, a flat peak parameter list whose length is a
  multiple of 3 and a noise level \<open>nlv \<ge> 0\<close>, \<open>gen_power_vals\<close> returns as many values as
  there are frequencies; value \<open>i\<close> is 10 to the power of the sum of the aperiodic curve, the
  peak curve and the noise at \<open>i\<close>, and is not negative. The noise at \<open>i\<close> is \<open>nlv\<close> times
  deviate \<open>i\<close> of the random stream, one per frequency.
\<close>

theorem gen_power_vals_formula:
  assumes "length ap = 2 \<or> length ap = 3" and "length gp mod 3 = 0" and "0 \<le> nlv"
  shows "\<exists>aperiodic peaks ys g'.
           gen_aperiodic F xs ap None = Inr aperiodic \<and>
           gen_peaks xs gp = Inr peaks \<and>
           gen_power_vals F xs ap gp nlv g = Inr (ys, g') \<and>
           length ys = length xs \<and>
           (\<forall>i<length xs. ys ! i = 10 powr (aperiodic ! i + peaks ! i + nlv * g i) \<and> 0 \<le> ys ! i) \<and>
           g' = (\<lambda>i. g (length xs + i))"
proof -
  obtain aperiodic peaks where
    h: "gen_aperiodic F xs ap None = Inr aperiodic" "gen_peaks xs gp = Inr peaks"
       "gen_power_vals F xs ap gp nlv g =
             Inr (map (\<lambda>i. 10 powr (aperiodic ! i + peaks ! i + nlv * g i)) [0..<length xs],
                  (\<lambda>i. g (length xs + i)))"
    using gen_power_vals_valid[OF assms, of F xs g] by blast
  show ?thesis
    by (intro exI conjI, rule h(1), rule h(2), rule h(3)) simp_all
qed

theorem gen_power_vals_formula_witness:
  "\<exists>aperiodic peaks ys g'.
           gen_aperiodic sample_funcs [1, 2, 3] [0, 2] None = Inr aperiodic \<and>
           gen_peaks [1, 2, 3] [10, 1, 1] = Inr peaks \<and>
           gen_power_vals sample_funcs [1, 2, 3] [0, 2] [10, 1, 1] default_nlv sample_rng = Inr (ys, g') \<and>
           length ys = 3 \<and>
           ys ! 0 = 10 powr (aperiodic ! 0 + peaks ! 0 + default_nlv * sample_rng 0) \<and> 0 \<le> ys ! 0"
proof -
  have h: "length [0, 2 :: real] = 2 \<or> length [0, 2 :: real] = 3" "length [10, 1, 1 :: real] mod 3 = 0"
    "0 \<le> default_nlv" by (simp_all add: default_nlv_nonneg)
  from gen_power_vals_formula[OF h, of sample_funcs "[1, 2, 3]" sample_rng] show ?thesis
    by (elim exE conjE, intro exI conjI) (assumption | simp)+
qed

subsection \<open>C7: the aperiodic mode\<close>

text \<open>
  C7: without an explicit mode, \<open>gen_aperiodic\<close> calls the "fixed" function on two
  parameters and the "knee" function on three, as \<^verbatim>\<open>f(xs, *params)\<close>; any other number of
  parameters is an InvalidParameterError.
\<close>

theorem gen_aperiodic_dispatch:
  "gen_aperiodic F xs ps None =
     (if length ps = 2 then call_fixed F xs ps
      else if length ps = 3 then call_knee F xs ps
      else Inl InvalidParameterError) \<and>
   gen_aperiodic F xs ps None =
     (if length ps = 2 then Inr (map (\<lambda>x. fixed_fn F x (ps ! 0) (ps ! 1)) xs)
      else if length ps = 3 then Inr (map (\<lambda>x. knee_fn F x (ps ! 0) (ps ! 1) (ps ! 2)) xs)
      else Inl InvalidParameterError)"
proof -
  have d: "gen_aperiodic F xs ps None =
     (if length ps = 2 then call_fixed F xs ps
      else if length ps = 3 then call_knee F xs ps
      else Inl InvalidParameterError)"
    by (simp add: gen_aperiodic_def infer_ap_func_def get_ap_func_def)
  then show ?thesis by (simp add: call_fixed_2 call_knee_3)
qed

theorem gen_aperiodic_dispatch_witness:
  "gen_aperiodic sample_funcs [1, 2] [0, 2] None =
     Inr [fixed_fn sample_funcs 1 0 2, fixed_fn sample_funcs 2 0 2] \<and>
   gen_aperiodic sample_funcs [1, 2] [0, 1, 2] None =
     Inr [knee_fn sample_funcs 1 0 1 2, knee_fn sample_funcs 2 0 1 2] \<and>
   gen_aperiodic sample_funcs [1, 2] [0] None = Inl InvalidParameterError \<and>
   gen_aperiodic sample_funcs [1, 2] [0, 1, 2, 3] None = Inl InvalidParameterError"
  using gen_aperiodic_dispatch[of sample_funcs "[1, 2]" "[0, 2]"]
    gen_aperiodic_dispatch[of sample_funcs "[1, 2]" "[0, 1, 2]"]
    gen_aperiodic_dispatch[of sample_funcs "[1, 2]" "[0]"]
    gen_aperiodic_dispatch[of sample_funcs "[1, 2]" "[0, 1, 2, 3]"]
  by (simp add: call_fixed_def call_knee_def)

subsection \<open>C8: peaks add up\<close>

text \<open>
  C8: for two flat peak parameter lists \<open>A\<close> and \<open>B\<close> whose lengths are multiples of 3, the
  peak curve of \<open>A @ B\<close> is the elementwise sum of the peak curves of \<open>A\<close> and of \<open>B\<close>; the
  peak curve of the empty list is all zero and as long as the frequency vector.
\<close>

theorem gen_peaks_additive:
  assumes "length A mod 3 = 0" "length B mod 3 = 0"
  shows "(\<exists>pa pb. gen_peaks xs A = Inr pa \<and> gen_peaks xs B = Inr pb \<and>
            gen_peaks xs (A @ B) = Inr (map2 (+) pa pb) \<and>
            length pa = length xs \<and> length pb = length xs) \<and>
         gen_peaks xs [] = Inr (replicate (length xs) 0)"
proof -
  obtain ta tb where t: "group_three A = Inr ta" "group_three B = Inr tb"
    using group_three_total[OF assms(1)] group_three_total[OF assms(2)] by blast
  let ?pa = "map (\<lambda>x. \<Sum>(c, h, w)\<leftarrow>ta. gaussian_bump c h w x) xs"
  let ?pb = "map (\<lambda>x. \<Sum>(c, h, w)\<leftarrow>tb. gaussian_bump c h w x) xs"
  have a: "gen_peaks xs A = Inr ?pa" by (rule gen_peaks_groups[OF t(1)])
  have b: "gen_peaks xs B = Inr ?pb" by (rule gen_peaks_groups[OF t(2)])
  have ab: "gen_peaks xs (A @ B) = Inr (map2 (+) ?pa ?pb)"
    unfolding gen_peaks_groups[OF group_three_append[OF t]] map2_add_maps by simp
  have e: "gen_peaks xs [] = Inr (replicate (length xs) 0)"
    by (simp add: gen_peaks_def gaussian_function_def np_zeros_def)
  from a b ab e show ?thesis by simp
qed

theorem gen_peaks_additive_witness:
  "\<exists>pa pb. gen_peaks [1, 2, 3] [10, 1, 1] = Inr pa \<and> gen_peaks [1, 2, 3] [20, 1 / 2, 1] = Inr pb \<and>
            gen_peaks [1, 2, 3] ([10, 1, 1] @ [20, 1 / 2, 1]) = Inr (map2 (+) pa pb) \<and>
            length pa = 3 \<and> length pb = 3"
  using gen_peaks_additive[of "[10, 1, 1]" "[20, 1 / 2, 1]" "[1, 2, 3]"] by (simp add: numeral_3_eq_3)

subsection \<open>C9: no noise, no randomness\<close>

text \<open>
  C9: with noise level 0 the values \<open>gen_power_vals\<close> returns (or the exception it raises) do
  not depend on the state of the random source: two calls with the same frequencies,
  aperiodic parameters and peak parameters return the same vector.
\<close>

theorem gen_power_vals_deterministic:
  "map_sum id fst (gen_power_vals F xs ap gp 0 g1) =
   map_sum id fst (gen_power_vals F xs ap gp 0 g2)"
  by (simp add: gen_power_vals_def np_random_normal_def split: sum.splits)

subsection \<open>C10: the order of the peaks\<close>

text \<open>
  C10: two flat peak parameter lists whose triples are permutations of each other have the
  same peak curve, and the same power values when the random source is the same; so the
  sorted triples of a record, flattened, give the peak curve of the unsorted list the
  spectrum was generated from.
\<close>

theorem gen_peaks_permutation:
  assumes "group_three A = Inr ta" "group_three B = Inr tb" "mset ta = mset tb"
  shows "gen_peaks xs A = gen_peaks xs B \<and>
         gen_power_vals F xs ap A nlv g = gen_power_vals F xs ap B nlv g \<and>
         gen_peaks xs (check_flat (Grouped (map (\<lambda>(c, h, w). [c, h, w]) (sort ta)))) =
           gen_peaks xs A"
proof -
  have 1: "gen_peaks xs A = gen_peaks xs B" for xs
    by (rule gen_peaks_perm[OF assms])
  have 2: "gen_power_vals F xs ap A nlv g = gen_power_vals F xs ap B nlv g"
    unfolding gen_power_vals_def 1 by (rule refl)
  have 3: "gen_peaks xs (check_flat (Grouped (map (\<lambda>(c, h, w). [c, h, w]) (sort ta)))) =
             gen_peaks xs A"
    unfolding check_flat.simps
    by (rule gen_peaks_perm[OF group_three_ungroup assms(1)]) simp
  from 1 2 3 show ?thesis by blast
qed

theorem gen_peaks_permutation_witness:
  "gen_peaks [1, 2, 3] [20, 1 / 2, 1, 10, 1, 1] = gen_peaks [1, 2, 3] [10, 1, 1, 20, 1 / 2, 1] \<and>
   gen_power_vals sample_funcs [1, 2, 3] [0, 2] [20, 1 / 2, 1, 10, 1, 1] default_nlv sample_rng =
     gen_power_vals sample_funcs [1, 2, 3] [0, 2] [10, 1, 1, 20, 1 / 2, 1] default_nlv sample_rng \<and>
   gen_peaks [1, 2, 3] (check_flat (Grouped [[10, 1, 1], [20, 1 / 2, 1]])) =
     gen_peaks [1, 2, 3] [20, 1 / 2, 1, 10, 1, 1]"
proof -
  have h: "group_three [20, 1 / 2, 1, 10, 1, 1] = Inr [(20, 1 / 2, 1), (10, 1, 1)]"
    "group_three [10, 1, 1, 20, 1 / 2, 1] = Inr [(10, 1, 1), (20, 1 / 2, 1)]"
    "mset [(20 :: real, 1 / 2 :: real, 1 :: real), (10, 1, 1)] = mset [(10, 1, 1), (20, 1 / 2, 1)]"
    by simp_all
  from gen_peaks_permutation[OF h, of "[1, 2, 3]" sample_funcs "[0, 2]" default_nlv sample_rng]
  show ?thesis by (simp only: sort_example list.map prod.case)
qed

end
